theory Spec2Isabelle
  imports Main "HOL-Library.Sublist" "HOL-Library.Multiset"
begin

section \<open>Strings and numbers of the runtime\<close>

text \<open>
  A JavaScript string is modelled by the byte sequence of its UTF-8 encoding, a
  \<^typ>\<open>string\<close>. The readings of the clock and the status codes are integers far
  below \<open>2 ^ 53\<close>, where the doubles of the runtime are exact: such a number is an
  \<^typ>\<open>int\<close>, and \<open>NaN\<close> is \<open>None\<close> of \<^typ>\<open>int option\<close>. The count of the writer is
  parsed from a string of any length and has a type of its own, \<open>js_number\<close> below.
\<close>

text \<open>
  The white space of the language (\<open>\s\<close> in a regular expression, and what
  \<open>parseInt\<close> skips): U+0009 to U+000D, U+0020, U+00A0, U+1680, U+2000 to U+200A,
  U+2028, U+2029, U+202F, U+205F, U+3000 and U+FEFF, each in its UTF-8 encoding.
\<close>

definition ws_encodings :: "string list" where
  "ws_encodings =
    [[CHR 0x09], [CHR 0x0A], [CHR 0x0B], [CHR 0x0C], [CHR 0x0D], [CHR 0x20],
     [CHR 0xC2, CHR 0xA0],
     [CHR 0xE1, CHR 0x9A, CHR 0x80],
     [CHR 0xE2, CHR 0x80, CHR 0x80], [CHR 0xE2, CHR 0x80, CHR 0x81],
     [CHR 0xE2, CHR 0x80, CHR 0x82], [CHR 0xE2, CHR 0x80, CHR 0x83],
     [CHR 0xE2, CHR 0x80, CHR 0x84], [CHR 0xE2, CHR 0x80, CHR 0x85],
     [CHR 0xE2, CHR 0x80, CHR 0x86], [CHR 0xE2, CHR 0x80, CHR 0x87],
     [CHR 0xE2, CHR 0x80, CHR 0x88], [CHR 0xE2, CHR 0x80, CHR 0x89],
     [CHR 0xE2, CHR 0x80, CHR 0x8A],
     [CHR 0xE2, CHR 0x80, CHR 0xA8], [CHR 0xE2, CHR 0x80, CHR 0xA9],
     [CHR 0xE2, CHR 0x80, CHR 0xAF],
     [CHR 0xE2, CHR 0x81, CHR 0x9F],
     [CHR 0xE3, CHR 0x80, CHR 0x80],
     [CHR 0xEF, CHR 0xBB, CHR 0xBF]]"

text \<open>The number of bytes of the white-space character at the head of a string; 0 if
  the string does not start with one.\<close>

definition ws_len :: "string \<Rightarrow> nat" where
  "ws_len s = (case find (\<lambda>w. prefix w s) ws_encodings of
                 None \<Rightarrow> 0
               | Some w \<Rightarrow> length w)"

text \<open>Dropping the maximal run of white space at the head of a string.\<close>

function skip_ws :: "string \<Rightarrow> string" where
  "skip_ws s = (if 0 < ws_len s then skip_ws (drop (ws_len s) s) else s)"
  by pat_completeness auto
termination
proof (relation "measure length")
  show "wf (measure length)" by simp
next
  fix s :: string
  assume pos: "0 < ws_len s"
  have "ws_len s \<le> length s"
    by (auto simp: ws_len_def prefix_def split: option.splits
             dest!: find_Some_iff [THEN iffD1])
  with pos show "(drop (ws_len s) s, s) \<in> measure length" by simp
qed

declare skip_ws.simps [simp del]

text \<open>\<open>String.prototype.replace(/\s+/g, '-')\<close>: every maximal run of white space becomes
  one hyphen, every other byte is kept.\<close>

function replace_ws :: "string \<Rightarrow> string" where
  "replace_ws s =
     (if s = [] then []
      else if 0 < ws_len s then CHR ''-'' # replace_ws (skip_ws s)
      else hd s # replace_ws (tl s))"
  by pat_completeness auto
termination
proof (relation "measure length")
  show "wf (measure length)" by simp
next
  fix s :: string
  assume "s \<noteq> []" and pos: "0 < ws_len s"
  have shorter: "length (skip_ws t) \<le> length t" for t
  proof (induction t rule: skip_ws.induct)
    case (1 t)
    show ?case
    proof (cases "0 < ws_len t")
      case True
      with 1 have "length (skip_ws (drop (ws_len t) t)) \<le> length (drop (ws_len t) t)"
        by simp
      with True show ?thesis by (subst skip_ws.simps) simp
    next
      case False
      then show ?thesis by (subst skip_ws.simps) simp
    qed
  qed
  have "ws_len s \<le> length s"
    by (auto simp: ws_len_def prefix_def split: option.splits
             dest!: find_Some_iff [THEN iffD1])
  with pos have "length (drop (ws_len s) s) < length s" by simp
  moreover have "length (skip_ws (drop (ws_len s) s)) \<le> length (drop (ws_len s) s)"
    by (rule shorter)
  moreover from pos have "skip_ws s = skip_ws (drop (ws_len s) s)"
    by (subst skip_ws.simps) simp
  ultimately show "(skip_ws s, s) \<in> measure length" by simp
next
  fix s :: string
  assume "s \<noteq> []"
  then show "(tl s, s) \<in> measure length" by (cases s) simp_all
qed

declare replace_ws.simps [simp del]

text \<open>Decimal digits, and \<open>Number.prototype.toString()\<close> on an integer.\<close>

definition digit_char :: "nat \<Rightarrow> char" where
  "digit_char d = ''0123456789'' ! d"

fun dec :: "nat \<Rightarrow> string" where
  "dec n = (if n < 10 then [digit_char n] else dec (n div 10) @ [digit_char (n mod 10)])"

declare dec.simps [simp del]

definition number_toString :: "int option \<Rightarrow> string" where
  "number_toString x =
     (case x of
        None \<Rightarrow> ''NaN''
      | Some n \<Rightarrow> if n < 0 then CHR ''-'' # dec (nat (- n)) else dec (nat n))"

text \<open>
  A number as the writer handles it: \<open>NaN\<close>, an integer of magnitude at most \<open>2 ^ 53\<close>
  (the doubles of the runtime are exact there), or a double beyond that, finite or
  infinite, of which only the sign is kept: which double a long run of digits becomes
  is left to the implementation.
\<close>

datatype js_number = NaN | Num int | HugePos | HugeNeg

text \<open>\<open>parseInt(s, 10)\<close>: skip leading white space, read an optional sign, then the
  longest run of decimal digits; \<open>NaN\<close> if there is no digit.\<close>

definition is_digit :: "char \<Rightarrow> bool" where
  "is_digit c = (48 \<le> (of_char c :: nat) \<and> (of_char c :: nat) \<le> 57)"

definition digits_value :: "string \<Rightarrow> int" where
  "digits_value ds = foldl (\<lambda>acc c. 10 * acc + (of_char c - 48)) 0 ds"

definition parseInt10 :: "string \<Rightarrow> js_number" where
  "parseInt10 s =
     (let t = skip_ws s;
          neg = (t \<noteq> [] \<and> hd t = CHR ''-'');
          u = (if t \<noteq> [] \<and> (hd t = CHR ''-'' \<or> hd t = CHR ''+'') then tl t else t);
          ds = takeWhile is_digit u
      in if ds = [] then NaN
         else if digits_value ds \<le> 2 ^ 53
           then Num ((if neg then - 1 else 1) * digits_value ds)
         else if neg then HugeNeg else HugePos)"

text \<open>\<open>${x}\<close> on such a number. The digits of a double beyond \<open>2 ^ 53\<close> are not
  modelled, and the writer prints none: it prints the count of a batch with a throttled
  write, which is an integer below \<open>2 ^ 32\<close>.\<close>

fun js_number_toString :: "js_number \<Rightarrow> string" where
  "js_number_toString NaN = number_toString None"
| "js_number_toString (Num n) = number_toString (Some n)"

text \<open>\<open>a || b\<close> on an optional string: \<open>undefined\<close> and the empty string are falsy.\<close>

definition or_default :: "string option \<Rightarrow> string \<Rightarrow> string" where
  "or_default a b = (case a of None \<Rightarrow> b | Some s \<Rightarrow> if s = [] then b else s)"

datatype js_error = JsError (err_name: string) (err_message: string)

abbreviation Error :: "string \<Rightarrow> js_error" where
  "Error msg \<equiv> JsError ''Error'' msg"

section \<open>lambda/writer.ts\<close>

text \<open>\<open>WRITE_COUNT = parseInt(process.env.WRITE_COUNT || '50', 10)\<close>; the argument is
  the environment variable, \<open>None\<close> when it is not set.\<close>

definition WRITE_COUNT :: "string option \<Rightarrow> js_number" where
  "WRITE_COUNT env = parseInt10 (or_default env ''50'')"

record WriteResult =
  success :: nat
  throttled :: nat
  errors :: nat
  totalAttempts :: js_number

text \<open>What \<open>client.send\<close> does for one item: the promise resolves, or it is rejected with
  an error that has a name (possibly none) and a message.\<close>

datatype put_outcome = Resolved | Rejected "string option" string

text \<open>The body of the \<open>try\<close>/\<open>catch\<close> of one item, once its \<open>send\<close> has settled.\<close>

definition record_outcome :: "put_outcome \<Rightarrow> WriteResult \<Rightarrow> WriteResult" where
  "record_outcome out results =
     (case out of
        Resolved \<Rightarrow> results\<lparr>success := success results + 1\<rparr>
      | Rejected name msg \<Rightarrow>
          if name = Some ''ProvisionedThroughputExceededException''
          then results\<lparr>throttled := throttled results + 1\<rparr>
          else results\<lparr>errors := errors results + 1\<rparr>)"

text \<open>
  \<open>Array.from({ length: WRITE_COUNT }, f)\<close>. The length of the array-like is 0 for
  \<open>NaN\<close> and for a negative number. For a length of \<open>2 ^ 32\<close> or more the array
  constructor raises \<open>RangeError\<close> before \<open>f\<close> is called at all; otherwise \<open>f\<close> is
  called on the indices below the length, in their order. What the memory and the time
  limit of the function do to a large batch is not modelled.
\<close>

definition array_indices :: "js_number \<Rightarrow> js_error + nat list" where
  "array_indices len =
     (case len of
        NaN \<Rightarrow> Inr []
      | Num n \<Rightarrow>
          if n < 2 ^ 32 then Inr [0..<nat n]
          else Inl (JsError ''RangeError'' ''Invalid array length'')
      | HugePos \<Rightarrow> Inl (JsError ''RangeError'' ''Invalid array length'')
      | HugeNeg \<Rightarrow> Inr [])"

text \<open>The indices of the items for which \<open>client.send\<close> is called.\<close>

definition dispatched :: "string option \<Rightarrow> nat list" where
  "dispatched env = (case array_indices (WRITE_COUNT env) of Inl e \<Rightarrow> [] | Inr indices \<Rightarrow> indices)"

text \<open>
  The counters once the writes have settled. \<open>store i\<close> is how the write of item \<open>i\<close>
  settles in this run. The callbacks run on the one thread of the runtime, each adds 1
  to one counter, and the tally does not depend on the order in which the writes settle
  (lemma \<open>tally_order\<close> below), so it is folded in the order of the indices.
\<close>

definition tally :: "put_outcome list \<Rightarrow> WriteResult \<Rightarrow> WriteResult" where
  "tally outs results = fold record_outcome outs results"

text \<open>The object \<open>results\<close> when the handler settles: after \<open>await Promise.all(promises)\<close>,
  or as it was initialised when \<open>Array.from\<close> has raised.\<close>

definition run_writes :: "string option \<Rightarrow> (nat \<Rightarrow> put_outcome) \<Rightarrow> WriteResult" where
  "run_writes env store =
     tally (map store (dispatched env))
       \<lparr>success = 0, throttled = 0, errors = 0, totalAttempts = WRITE_COUNT env\<rparr>"

definition throttling_message :: "WriteResult \<Rightarrow> string" where
  "throttling_message results =
     ''Throttling occurred: '' @ dec (throttled results) @ ''/''
       @ js_number_toString (totalAttempts results) @ '' requests were throttled''"

definition handler_writer :: "string option \<Rightarrow> (nat \<Rightarrow> put_outcome) \<Rightarrow> js_error + WriteResult" where
  "handler_writer env store =
     (case array_indices (WRITE_COUNT env) of
        Inl e \<Rightarrow> Inl e
      | Inr promises \<Rightarrow>
          (let results = run_writes env store
           in if 0 < throttled results then Inl (Error (throttling_message results))
              else Inr results))"

text \<open>The stub stores of the end-to-end examples: one that never throttles, and one that
  rejects the items from index 40 on with the throughput exception.\<close>

definition store_never_throttles :: "nat \<Rightarrow> put_outcome" where
  "store_never_throttles i = Resolved"

definition store_throttles_from_40 :: "nat \<Rightarrow> put_outcome" where
  "store_throttles_from_40 i =
     (if 40 \<le> i then Rejected (Some ''ProvisionedThroughputExceededException'') ''capacity''
      else Resolved)"

text \<open>The classification in the words of the specification: a write is throttled when
  the store rejects it with its capacity-exceeded error.\<close>

definition is_throttle :: "put_outcome \<Rightarrow> bool" where
  "is_throttle out =
     (case out of
        Resolved \<Rightarrow> False
      | Rejected name msg \<Rightarrow> name = Some ''ProvisionedThroughputExceededException'')"

text \<open>A count for which the array constructor raises.\<close>

definition too_large :: "js_number \<Rightarrow> bool" where
  "too_large len = (case len of NaN \<Rightarrow> False | Num n \<Rightarrow> 2 ^ 32 \<le> n | HugePos \<Rightarrow> True
                    | HugeNeg \<Rightarrow> False)"

section \<open>lambda/webhook-notifier.ts\<close>

text \<open>
  The repository holds the notifier in two variants: \<open>part_000\<close>, whose payload has a
  \<open>service\<close> and a \<open>data.metadata\<close> block, and \<open>part_001\<close>, whose payload lists
  \<open>affectedResources\<close> from two environment variables. The names of \<open>part_001\<close> that
  differ from those of \<open>part_000\<close> carry the suffix \<open>_001\<close>; \<open>sendWebhook\<close> is the same
  text in both and is modelled once, for any payload type.
\<close>

subsection \<open>The inbound event and the environment\<close>

text \<open>The fields of the event that the handler reads. A field that is absent at run
  time is \<open>None\<close>: the handler reads them with \<open>?.\<close> and \<open>||\<close>.\<close>

record alarm_state =
  st_value :: "string option"
  st_reason :: "string option"
  st_timestamp :: "string option"

record alarm_data =
  ad_alarmName :: "string option"
  ad_state :: "alarm_state option"

record CloudWatchAlarmEvent =
  ev_alarmData :: "alarm_data option"
  ev_accountId :: "string option"
  ev_region :: "string option"
  ev_alarmArn :: "string option"

text \<open>\<open>process.env\<close>: each variable is a string, or \<open>None\<close> when it is not set.\<close>

record process_env =
  env_WEBHOOK_ENABLED :: "string option"
  env_WEBHOOK_URL :: "string option"
  env_WEBHOOK_SECRET :: "string option"
  env_SERVICE_NAME :: "string option"
  env_WRITER_LAMBDA_ARN :: "string option"
  env_DYNAMODB_TABLE_ARN :: "string option"

definition WEBHOOK_ENABLED :: "process_env \<Rightarrow> bool" where
  "WEBHOOK_ENABLED env = (env_WEBHOOK_ENABLED env = Some ''true'')"

definition WEBHOOK_URL :: "process_env \<Rightarrow> string" where
  "WEBHOOK_URL env = or_default (env_WEBHOOK_URL env) []"

definition WEBHOOK_SECRET :: "process_env \<Rightarrow> string" where
  "WEBHOOK_SECRET env = or_default (env_WEBHOOK_SECRET env) []"

definition SERVICE_NAME :: "process_env \<Rightarrow> string" where
  "SERVICE_NAME env = or_default (env_SERVICE_NAME env) ''DemoDevOpsAgent''"

definition WRITER_LAMBDA_ARN :: "process_env \<Rightarrow> string" where
  "WRITER_LAMBDA_ARN env = or_default (env_WRITER_LAMBDA_ARN env) []"

definition DYNAMODB_TABLE_ARN :: "process_env \<Rightarrow> string" where
  "DYNAMODB_TABLE_ARN env = or_default (env_DYNAMODB_TABLE_ARN env) []"

subsection \<open>The runtime: clock, serialiser, crypto, URL parser and HTTPS transport\<close>

record parsed_url =
  url_hostname :: string
  url_port :: string
  url_pathname :: string
  url_search :: string

text \<open>What goes to the transport: the options of \<open>https.request\<close> and the body written
  with \<open>req.write\<close>.\<close>

record http_request =
  req_hostname :: string
  req_port :: string
  req_path :: string
  req_method :: string
  req_headers :: "(string \<times> string) list"
  req_body :: string

text \<open>How a request ends: the response has ended, with its status code (possibly
  absent) and its body, or the request has emitted \<open>error\<close>.\<close>

datatype http_outcome = Response "int option" string | RequestError js_error

text \<open>
  The library functions that the notifier calls are parameters of the model:
  the three readings of the clock (\<open>new Date().toISOString()\<close> in the handler,
  \<open>Date.now()\<close> in \<open>buildWebhookPayload\<close>, \<open>new Date().toISOString()\<close> in
  \<open>sendWebhook\<close>), \<open>JSON.stringify\<close> on a payload,
  \<open>crypto.createHmac(algorithm, key).update(data, 'utf8').digest(encoding)\<close>,
  \<open>new url.URL\<close> (\<open>None\<close> when it throws) and the transport behind \<open>https.request\<close>.
\<close>

record 'p runtime =
  Date_toISOString_handler :: string
  Date_now :: int
  Date_toISOString_send :: string
  JSON_stringify :: "'p \<Rightarrow> string"
  createHmac_digest :: "string \<Rightarrow> string \<Rightarrow> string \<Rightarrow> string \<Rightarrow> string"
  URL_parse :: "string \<Rightarrow> parsed_url option"
  https_request :: "http_request \<Rightarrow> http_outcome"

subsection \<open>Payloads\<close>

record metadata =
  region :: string
  environment :: string
  affectedResources :: "string list"
  alarmName :: string
  alarmArn :: string
  accountId :: string

record DevOpsAgentWebhookPayload =
  eventType :: string
  incidentId :: string
  action :: string
  priority :: string
  title :: string
  description :: string
  service :: string
  timestamp :: string
  data_metadata :: metadata

record DevOpsAgentWebhookPayload_001 =
  eventType_001 :: string
  incidentId_001 :: string
  action_001 :: string
  priority_001 :: string
  title_001 :: string
  description_001 :: string
  timestamp_001 :: string
  affectedResources_001 :: "string list"

text \<open>\<open>buildWebhookPayload\<close> of \<open>part_000\<close>; \<open>now\<close> is what \<open>Date.now()\<close> returns in it.\<close>

definition buildWebhookPayload ::
  "process_env \<Rightarrow> int \<Rightarrow> string \<Rightarrow> string \<Rightarrow> string \<Rightarrow> string \<Rightarrow> string \<Rightarrow> string
     \<Rightarrow> DevOpsAgentWebhookPayload" where
  "buildWebhookPayload env now alarmName' stateReason timestamp' region' accountId' alarmArn' =
     \<lparr>eventType = ''incident'',
      incidentId = replace_ws alarmName' @ ''-'' @ number_toString (Some now),
      action = ''created'',
      priority = ''HIGH'',
      title = ''[CloudWatch Alarm] '' @ alarmName',
      description = stateReason,
      service = SERVICE_NAME env,
      timestamp = timestamp',
      data_metadata =
        \<lparr>region = region',
         environment = ''production'',
         affectedResources = (if alarmArn' \<noteq> [] then [alarmArn'] else []),
         alarmName = alarmName',
         alarmArn = alarmArn',
         accountId = accountId'\<rparr>\<rparr>"

text \<open>\<open>buildWebhookPayload\<close> of \<open>part_001\<close>.\<close>

definition buildWebhookPayload_001 ::
  "process_env \<Rightarrow> int \<Rightarrow> string \<Rightarrow> string \<Rightarrow> string \<Rightarrow> DevOpsAgentWebhookPayload_001" where
  "buildWebhookPayload_001 env now alarmName' stateReason timestamp' =
     \<lparr>eventType_001 = ''incident'',
      incidentId_001 = alarmName' @ ''-'' @ number_toString (Some now),
      action_001 = ''created'',
      priority_001 = ''HIGH'',
      title_001 = alarmName',
      description_001 = stateReason,
      timestamp_001 = timestamp',
      affectedResources_001 =
        (if WRITER_LAMBDA_ARN env \<noteq> [] then [WRITER_LAMBDA_ARN env] else [])
        @ (if DYNAMODB_TABLE_ARN env \<noteq> [] then [DYNAMODB_TABLE_ARN env] else [])\<rparr>"

subsection \<open>sendWebhook\<close>

text \<open>\<open>${res.statusCode}\<close> in the message of the error.\<close>

definition status_toString :: "int option \<Rightarrow> string" where
  "status_toString statusCode =
     (case statusCode of None \<Rightarrow> ''undefined'' | Some c \<Rightarrow> number_toString (Some c))"

text \<open>\<open>res.statusCode && res.statusCode >= 200 && res.statusCode < 300\<close>.\<close>

definition status_ok :: "int option \<Rightarrow> bool" where
  "status_ok statusCode =
     (case statusCode of None \<Rightarrow> False | Some c \<Rightarrow> c \<noteq> 0 \<and> 200 \<le> c \<and> c < 300)"

text \<open>The request that \<open>sendWebhook\<close> builds for a parsed URL: the options, and the
  serialised payload as the body.\<close>

definition webhook_request :: "process_env \<Rightarrow> 'p runtime \<Rightarrow> 'p \<Rightarrow> parsed_url \<Rightarrow> http_request" where
  "webhook_request env rt payload parsedUrl =
     (let payloadString = JSON_stringify rt payload;
          timestamp' = Date_toISOString_send rt;
          signature =
            createHmac_digest rt ''sha256'' (WEBHOOK_SECRET env)
              (timestamp' @ '':'' @ payloadString) ''base64''
      in \<lparr>req_hostname = url_hostname parsedUrl,
          req_port = (if url_port parsedUrl \<noteq> [] then url_port parsedUrl else ''443''),
          req_path = url_pathname parsedUrl @ url_search parsedUrl,
          req_method = ''POST'',
          req_headers =
            [(''Content-Type'', ''application/json''),
             (''Content-Length'', dec (length payloadString)),
             (''x-amzn-event-timestamp'', timestamp'),
             (''x-amzn-event-signature'', signature)],
          req_body = payloadString\<rparr>)"

text \<open>\<open>sendWebhook\<close> returns how its promise settles (\<open>Inr ()\<close> resolved, \<open>Inl e\<close>
  rejected with \<open>e\<close>) and the requests that went to the transport.\<close>

definition sendWebhook ::
  "process_env \<Rightarrow> 'p runtime \<Rightarrow> 'p \<Rightarrow> (js_error + unit) \<times> http_request list" where
  "sendWebhook env rt payload =
     (case URL_parse rt (WEBHOOK_URL env) of
        None \<Rightarrow> (Inl (JsError ''TypeError'' ''Invalid URL''), [])
      | Some parsedUrl \<Rightarrow>
          (let req = webhook_request env rt payload parsedUrl
           in (case https_request rt req of
                 Response statusCode responseBody \<Rightarrow>
                   if status_ok statusCode then Inr ()
                   else Inl (Error (''Webhook failed with status '' @ status_toString statusCode
                                     @ '': '' @ responseBody))
               | RequestError e \<Rightarrow> Inl e,
               [req])))"

subsection \<open>handler\<close>

text \<open>What one invocation of the handler does: how it ends, the payloads that
  \<open>buildWebhookPayload\<close> built, and the requests that went to the transport.\<close>

record 'p invocation =
  result :: "js_error + unit"
  built :: "'p list"
  sent :: "http_request list"

text \<open>\<open>event.alarmData?.state?.value || 'UNKNOWN'\<close> and the other fields with their
  defaults.\<close>

definition alarmState_of :: "CloudWatchAlarmEvent \<Rightarrow> string" where
  "alarmState_of event =
     or_default (Option.bind (Option.bind (ev_alarmData event) ad_state) st_value) ''UNKNOWN''"

definition alarmName_of :: "CloudWatchAlarmEvent \<Rightarrow> string" where
  "alarmName_of event = or_default (Option.bind (ev_alarmData event) ad_alarmName) ''Unknown Alarm''"

definition stateReason_of :: "CloudWatchAlarmEvent \<Rightarrow> string" where
  "stateReason_of event =
     or_default (Option.bind (Option.bind (ev_alarmData event) ad_state) st_reason)
       ''No reason provided''"

definition timestamp_of :: "'p runtime \<Rightarrow> CloudWatchAlarmEvent \<Rightarrow> string" where
  "timestamp_of rt event =
     or_default (Option.bind (Option.bind (ev_alarmData event) ad_state) st_timestamp)
       (Date_toISOString_handler rt)"

text \<open>The handler of \<open>part_000\<close>.\<close>

definition handler ::
  "process_env \<Rightarrow> DevOpsAgentWebhookPayload runtime \<Rightarrow> CloudWatchAlarmEvent
     \<Rightarrow> DevOpsAgentWebhookPayload invocation" where
  "handler env rt event =
     (let alarmName' = alarmName_of event;
          alarmState = alarmState_of event;
          stateReason = stateReason_of event;
          timestamp' = timestamp_of rt event;
          accountId' = or_default (ev_accountId event) ''unknown'';
          region' = or_default (ev_region event) ''us-east-1'';
          alarmArn' = or_default (ev_alarmArn event) []
      in if alarmState \<noteq> ''ALARM'' then \<lparr>result = Inr (), built = [], sent = []\<rparr>
         else if \<not> WEBHOOK_ENABLED env then
           (let dryRunPayload =
                  buildWebhookPayload env (Date_now rt) alarmName' stateReason timestamp'
                    region' accountId' alarmArn'
            in \<lparr>result = Inr (), built = [dryRunPayload], sent = []\<rparr>)
         else if WEBHOOK_URL env = [] then
           \<lparr>result = Inl (Error ''WEBHOOK_URL is required when WEBHOOK_ENABLED=true''),
            built = [], sent = []\<rparr>
         else if WEBHOOK_SECRET env = [] then
           \<lparr>result = Inl (Error ''WEBHOOK_SECRET is required when WEBHOOK_ENABLED=true''),
            built = [], sent = []\<rparr>
         else
           (let payload =
                  buildWebhookPayload env (Date_now rt) alarmName' stateReason timestamp'
                    region' accountId' alarmArn'
            in \<lparr>result = fst (sendWebhook env rt payload), built = [payload],
                sent = snd (sendWebhook env rt payload)\<rparr>))"

text \<open>The handler of \<open>part_001\<close>.\<close>

definition handler_001 ::
  "process_env \<Rightarrow> DevOpsAgentWebhookPayload_001 runtime \<Rightarrow> CloudWatchAlarmEvent
     \<Rightarrow> DevOpsAgentWebhookPayload_001 invocation" where
  "handler_001 env rt event =
     (let alarmName' = alarmName_of event;
          alarmState = alarmState_of event;
          stateReason = stateReason_of event;
          timestamp' = timestamp_of rt event
      in if alarmState \<noteq> ''ALARM'' then \<lparr>result = Inr (), built = [], sent = []\<rparr>
         else if \<not> WEBHOOK_ENABLED env then
           (let dryRunPayload =
                  buildWebhookPayload_001 env (Date_now rt) alarmName' stateReason timestamp'
            in \<lparr>result = Inr (), built = [dryRunPayload], sent = []\<rparr>)
         else if WEBHOOK_URL env = [] then
           \<lparr>result = Inl (Error ''WEBHOOK_URL is required when WEBHOOK_ENABLED=true''),
            built = [], sent = []\<rparr>
         else if WEBHOOK_SECRET env = [] then
           \<lparr>result = Inl (Error ''WEBHOOK_SECRET is required when WEBHOOK_ENABLED=true''),
            built = [], sent = []\<rparr>
         else
           (let payload =
                  buildWebhookPayload_001 env (Date_now rt) alarmName' stateReason timestamp'
            in \<lparr>result = fst (sendWebhook env rt payload), built = [payload],
                sent = snd (sendWebhook env rt payload)\<rparr>))"

subsection \<open>Stubs and examples\<close>

text \<open>The stubs of the end-to-end examples of the notifier: a URL parser that knows one
  URL, a stand-in for the keyed hash that keeps all of its arguments apart, a transport
  that answers every request with a given status, and a clock that stands still.\<close>

definition example_url :: parsed_url where
  "example_url =
     \<lparr>url_hostname = ''example.test'', url_port = [], url_pathname = ''/hook'',
      url_search = []\<rparr>"

definition stub_URL_parse :: "string \<Rightarrow> parsed_url option" where
  "stub_URL_parse u = (if u = ''https://example.test/hook'' then Some example_url else None)"

definition stub_hmac :: "string \<Rightarrow> string \<Rightarrow> string \<Rightarrow> string \<Rightarrow> string" where
  "stub_hmac algorithm key msg encoding =
     algorithm @ ''|'' @ key @ ''|'' @ msg @ ''|'' @ encoding"

definition stub_transport :: "int \<Rightarrow> http_request \<Rightarrow> http_outcome" where
  "stub_transport status req = Response (Some status) ''stub''"

definition stub_runtime :: "int \<Rightarrow> ('p \<Rightarrow> string) \<Rightarrow> 'p runtime" where
  "stub_runtime status serialise =
     \<lparr>Date_toISOString_handler = ''2024-01-01T00:00:01.000Z'',
      Date_now = 1704067200000,
      Date_toISOString_send = ''2024-01-01T00:00:02.000Z'',
      JSON_stringify = serialise,
      createHmac_digest = stub_hmac,
      URL_parse = stub_URL_parse,
      https_request = stub_transport status\<rparr>"

definition example_event :: "string \<Rightarrow> CloudWatchAlarmEvent" where
  "example_event st =
     \<lparr>ev_alarmData = Some
        \<lparr>ad_alarmName = Some ''demo-devops-agent-dynamodb-write-throttle'',
         ad_state = Some \<lparr>st_value = Some st, st_reason = Some ''Threshold Crossed'',
                          st_timestamp = Some ''2024-01-01T00:00:00Z''\<rparr>\<rparr>,
      ev_accountId = Some ''123456789012'',
      ev_region = Some ''us-east-1'',
      ev_alarmArn = Some ''arn:aws:cloudwatch:us-east-1:123456789012:alarm:demo''\<rparr>"

definition empty_event :: CloudWatchAlarmEvent where
  "empty_event =
     \<lparr>ev_alarmData = None, ev_accountId = None, ev_region = None, ev_alarmArn = None\<rparr>"

definition example_env :: "string \<Rightarrow> string \<Rightarrow> string \<Rightarrow> process_env" where
  "example_env enabled url secret =
     \<lparr>env_WEBHOOK_ENABLED = Some enabled, env_WEBHOOK_URL = Some url,
      env_WEBHOOK_SECRET = Some secret, env_SERVICE_NAME = None,
      env_WRITER_LAMBDA_ARN = None, env_DYNAMODB_TABLE_ARN = None\<rparr>"

subsection \<open>Notions of the specification\<close>

text \<open>A string has white space when a white-space character starts at one of its
  positions.\<close>

fun has_ws :: "string \<Rightarrow> bool" where
  "has_ws [] = False"
| "has_ws (c # cs) = (0 < ws_len (c # cs) \<or> has_ws cs)"

text \<open>The error of the configuration check: the URL is looked at first.\<close>

definition config_error :: "process_env \<Rightarrow> js_error" where
  "config_error env =
     (if WEBHOOK_URL env = [] then Error ''WEBHOOK_URL is required when WEBHOOK_ENABLED=true''
      else Error ''WEBHOOK_SECRET is required when WEBHOOK_ENABLED=true'')"

text \<open>A request is signed when its signature header is the keyed hash, under the
  algorithm \<open>sha256\<close> and in the encoding \<open>base64\<close>, of its timestamp header, a colon
  and its body.\<close>

definition signed_with ::
  "(string \<Rightarrow> string \<Rightarrow> string \<Rightarrow> string \<Rightarrow> string) \<Rightarrow> string \<Rightarrow> http_request \<Rightarrow> bool" where
  "signed_with hmac secret req =
     (case map_of (req_headers req) ''x-amzn-event-timestamp'' of
        None \<Rightarrow> False
      | Some ts \<Rightarrow>
          map_of (req_headers req) ''x-amzn-event-signature''
            = Some (hmac ''sha256'' secret (ts @ '':'' @ req_body req) ''base64''))"

text \<open>The interval of the status codes that count as success.\<close>

definition in_2xx :: "int option \<Rightarrow> bool" where
  "in_2xx statusCode = (case statusCode of None \<Rightarrow> False | Some c \<Rightarrow> 200 \<le> c \<and> c < 300)"

section \<open>Properties of the writer\<close>

lemma tally_Nil: "tally [] r = r"
  by (simp add: tally_def)

lemma tally_Cons: "tally (x # xs) r = tally xs (record_outcome x r)"
  by (simp add: tally_def)

lemma tally_success:
  "success (tally outs r) = success r + length (filter (\<lambda>out. out = Resolved) outs)"
  by (induction outs arbitrary: r)
     (auto simp: tally_Nil tally_Cons record_outcome_def split: put_outcome.splits)

lemma tally_throttled:
  "throttled (tally outs r) = throttled r + length (filter is_throttle outs)"
  by (induction outs arbitrary: r)
     (auto simp: tally_Nil tally_Cons record_outcome_def is_throttle_def split: put_outcome.splits)

lemma tally_errors:
  "errors (tally outs r) =
     errors r + length (filter (\<lambda>out. out \<noteq> Resolved \<and> \<not> is_throttle out) outs)"
  by (induction outs arbitrary: r)
     (auto simp: tally_Nil tally_Cons record_outcome_def is_throttle_def split: put_outcome.splits)

lemma tally_total: "totalAttempts (tally outs r) = totalAttempts r"
  by (induction outs arbitrary: r)
     (auto simp: tally_Nil tally_Cons record_outcome_def split: put_outcome.splits)

lemma tally_more: "WriteResult.more (tally outs r) = WriteResult.more r"
  by (induction outs arbitrary: r)
     (auto simp: tally_Nil tally_Cons record_outcome_def split: put_outcome.splits)

lemma record_outcome_sum:
  "success (record_outcome x r) + throttled (record_outcome x r) + errors (record_outcome x r)
     = success r + throttled r + errors r + 1"
  by (simp add: record_outcome_def split: put_outcome.splits)

lemma tally_sum:
  "success (tally outs r) + throttled (tally outs r) + errors (tally outs r)
     = success r + throttled r + errors r + length outs"
proof (induction outs arbitrary: r)
  case Nil
  show ?case by (simp add: tally_Nil)
next
  case (Cons x xs)
  from Cons [of "record_outcome x r"] record_outcome_sum [of x r]
  show ?case by (simp add: tally_Cons)
qed

text \<open>The tally is the same in whatever order the writes settle.\<close>

lemma tally_order: "mset outs = mset outs' \<Longrightarrow> tally outs r = tally outs' r"
proof -
  assume m: "mset outs = mset outs'"
  have "\<And>P. length (filter P outs) = length (filter P outs')"
    using m by (metis mset_filter size_mset)
  then show ?thesis
    by (intro WriteResult.equality)
       (simp_all add: tally_success tally_throttled tally_errors tally_total tally_more)
qed

text \<open>The array constructor raises exactly for a count that is too large, and then
  nothing is dispatched.\<close>

lemma array_indices_too_large:
  "too_large len \<Longrightarrow> array_indices len = Inl (JsError ''RangeError'' ''Invalid array length'')"
  by (cases len) (simp_all add: too_large_def array_indices_def)

lemma array_indices_fits:
  "\<not> too_large len \<Longrightarrow>
     array_indices len = Inr (case len of Num n \<Rightarrow> [0..<nat n] | _ \<Rightarrow> [])"
  by (cases len) (simp_all add: too_large_def array_indices_def)

lemma dispatched_too_large: "too_large (WRITE_COUNT env) \<Longrightarrow> dispatched env = []"
  by (simp add: dispatched_def array_indices_too_large)

lemma dispatched_Num:
  "WRITE_COUNT env = Num n \<Longrightarrow> n < 2 ^ 32 \<Longrightarrow> dispatched env = [0..<nat n]"
  by (simp add: dispatched_def array_indices_def)

lemma throttled_run:
  "throttled (run_writes env store) = length (filter is_throttle (map store (dispatched env)))"
  by (simp add: run_writes_def tally_throttled)

lemma sum_run:
  "success (run_writes env store) + throttled (run_writes env store)
     + errors (run_writes env store) = length (dispatched env)"
  using tally_sum [of "map store (dispatched env)"] by (simp add: run_writes_def)

lemma total_run: "totalAttempts (run_writes env store) = WRITE_COUNT env"
  by (simp add: run_writes_def tally_total)

text \<open>A batch with a throttled write has a count from 1 to \<open>2 ^ 32 - 1\<close>, which is the
  number of writes dispatched, and this is the number that the message prints.\<close>

lemma throttled_total:
  assumes "0 < throttled (run_writes env store)"
  shows "\<not> too_large (WRITE_COUNT env)"
    and "js_number_toString (totalAttempts (run_writes env store))
           = dec (length (dispatched env))"
proof -
  from assms have ne: "dispatched env \<noteq> []" by (auto simp: throttled_run)
  then obtain n where n: "WRITE_COUNT env = Num n" "0 < n" "n < 2 ^ 32"
    by (cases "WRITE_COUNT env")
       (auto simp: dispatched_def array_indices_def split: if_splits)
  then show "\<not> too_large (WRITE_COUNT env)" by (simp add: too_large_def)
  from n have "nat n = length (dispatched env)" by (simp add: dispatched_Num)
  with n show "js_number_toString (totalAttempts (run_writes env store))
      = dec (length (dispatched env))"
    by (simp add: total_run number_toString_def)
qed

lemma handler_writer_too_large:
  "too_large (WRITE_COUNT env) \<Longrightarrow>
     handler_writer env store = Inl (JsError ''RangeError'' ''Invalid array length'')"
  by (simp add: handler_writer_def array_indices_too_large)

lemma handler_writer_fits:
  "\<not> too_large (WRITE_COUNT env) \<Longrightarrow>
     handler_writer env store =
       (if 0 < throttled (run_writes env store)
        then Inl (Error (throttling_message (run_writes env store)))
        else Inr (run_writes env store))"
  by (simp add: handler_writer_def array_indices_fits Let_def)

text \<open>
  C1 (as amended). The throttled count of a batch is the number of its writes that the
  store rejected with the throughput exception. The invocation of the writer fails
  exactly when that count is positive or the configured count is \<open>2 ^ 32\<close> or more. On
  a positive throttled count the message of the error contains the word "throttled" and
  the counts in the form throttled/attempted, where attempted is the number of writes
  that were dispatched. On a count of \<open>2 ^ 32\<close> or more the array constructor raises
  \<open>RangeError\<close> and no write is dispatched. In every other run the counters are returned
  as the result, whatever the count of other errors.
\<close>

theorem writer_fails_iff_throttled_or_too_large:
  "throttled (run_writes env store)
     = length (filter is_throttle (map store (dispatched env))) \<and>
   (isl (handler_writer env store) \<longleftrightarrow>
      0 < throttled (run_writes env store) \<or> too_large (WRITE_COUNT env)) \<and>
   (0 < throttled (run_writes env store) \<longrightarrow>
      (\<exists>msg. handler_writer env store = Inl (Error msg) \<and> sublist ''throttled'' msg \<and>
         sublist (dec (throttled (run_writes env store)) @ ''/'' @ dec (length (dispatched env)))
           msg)) \<and>
   (too_large (WRITE_COUNT env) \<longrightarrow>
      dispatched env = [] \<and>
      handler_writer env store = Inl (JsError ''RangeError'' ''Invalid array length'')) \<and>
   (throttled (run_writes env store) = 0 \<and> \<not> too_large (WRITE_COUNT env) \<longrightarrow>
      handler_writer env store = Inr (run_writes env store))"
proof (cases "0 < throttled (run_writes env store)")
  case True
  define r where "r = run_writes env store"
  define counts where "counts = dec (throttled r) @ ''/'' @ dec (length (dispatched env))"
  from True have fits: "\<not> too_large (WRITE_COUNT env)"
    by (rule throttled_total)
  have m: "throttling_message r =
      ''Throttling occurred: '' @ counts @ '' requests were throttled''"
    using throttled_total(2) [OF True]
    by (simp add: throttling_message_def r_def counts_def)
  have 1: "sublist counts (throttling_message r)"
    unfolding m by (rule sublist_appendI)
  have "throttling_message r =
      (''Throttling occurred: '' @ counts @ '' requests were '') @ ''throttled''"
    unfolding m by simp
  then have 2: "sublist ''throttled'' (throttling_message r)"
    by (metis sublist_append_leftI)
  have "handler_writer env store = Inl (Error (throttling_message r))"
    using True fits by (simp add: handler_writer_fits r_def)
  with True fits 1 2 show ?thesis by (simp add: r_def counts_def throttled_run)
next
  case False
  show ?thesis
  proof (cases "too_large (WRITE_COUNT env)")
    case True
    with False show ?thesis
      by (simp add: handler_writer_too_large dispatched_too_large throttled_run)
  next
    case fits: False
    with False show ?thesis
      by (simp add: handler_writer_fits throttled_run)
  qed
qed

text \<open>Witness of C1 (as amended): 50 writes against the store that throttles the indices
  from 40 on fail with the counts 10/50; a count of \<open>2 ^ 32\<close> fails with \<open>RangeError\<close>;
  50 writes against the store that never throttles return the counters.\<close>

theorem writer_fails_iff_throttled_or_too_large_witness:
  "0 < throttled (run_writes (Some ''50'') store_throttles_from_40) \<and>
   isl (handler_writer (Some ''50'') store_throttles_from_40) \<and>
   (\<exists>msg. handler_writer (Some ''50'') store_throttles_from_40 = Inl (Error msg) \<and>
      sublist ''throttled'' msg \<and> sublist ''10/50'' msg) \<and>
   too_large (WRITE_COUNT (Some ''4294967296'')) \<and>
   handler_writer (Some ''4294967296'') store_throttles_from_40
     = Inl (JsError ''RangeError'' ''Invalid array length'') \<and>
   throttled (run_writes (Some ''50'') store_never_throttles) = 0 \<and>
   \<not> too_large (WRITE_COUNT (Some ''50'')) \<and>
   handler_writer (Some ''50'') store_never_throttles
     = Inr (run_writes (Some ''50'') store_never_throttles)"
proof -
  have w: "WRITE_COUNT (Some ''50'') = Num 50"
    by code_simp
  have big: "WRITE_COUNT (Some ''4294967296'') = Num 4294967296"
    by code_simp
  have t: "throttled (run_writes (Some ''50'') store_throttles_from_40) = 10"
    by code_simp
  have t0: "throttled (run_writes (Some ''50'') store_never_throttles) = 0"
    by code_simp
  have d: "length (dispatched (Some ''50'')) = 50"
    by code_simp
  have c: "dec 10 @ ''/'' @ dec 50 = ''10/50''"
    by code_simp
  have l: "too_large (WRITE_COUNT (Some ''4294967296''))"
    unfolding big by (simp add: too_large_def)
  have f: "\<not> too_large (WRITE_COUNT (Some ''50''))"
    unfolding w by (simp add: too_large_def)
  from writer_fails_iff_throttled_or_too_large [of "Some ''50''" store_throttles_from_40]
  have 1: "isl (handler_writer (Some ''50'') store_throttles_from_40) \<and>
      (\<exists>msg. handler_writer (Some ''50'') store_throttles_from_40 = Inl (Error msg) \<and>
         sublist ''throttled'' msg \<and> sublist ''10/50'' msg)"
    unfolding t d c by simp
  from l writer_fails_iff_throttled_or_too_large [of "Some ''4294967296''"
      store_throttles_from_40]
  have 2: "handler_writer (Some ''4294967296'') store_throttles_from_40
      = Inl (JsError ''RangeError'' ''Invalid array length'')"
    by blast
  from t0 f writer_fails_iff_throttled_or_too_large [of "Some ''50''" store_never_throttles]
  have 3: "handler_writer (Some ''50'') store_never_throttles
      = Inr (run_writes (Some ''50'') store_never_throttles)"
    by blast
  from 1 2 3 l f show ?thesis
    unfolding t t0 by simp
qed

text \<open>Counterexample to C1 as stated: with \<open>WRITE_COUNT=4294967296\<close> the array
  constructor raises, the invocation fails, and the throttled count is 0.\<close>

theorem writer_fails_without_throttling_counterexample:
  "handler_writer (Some ''4294967296'') store_never_throttles
     = Inl (JsError ''RangeError'' ''Invalid array length'') \<and>
   isl (handler_writer (Some ''4294967296'') store_never_throttles) \<and>
   throttled (run_writes (Some ''4294967296'') store_never_throttles) = 0"
proof -
  have big: "WRITE_COUNT (Some ''4294967296'') = Num 4294967296"
    by code_simp
  then have "array_indices (WRITE_COUNT (Some ''4294967296''))
      = Inl (JsError ''RangeError'' ''Invalid array length'')"
    by (simp add: array_indices_def)
  then show ?thesis
    by (simp add: handler_writer_def run_writes_def dispatched_def tally_Nil)
qed

text \<open>
  C2 (as amended). Every dispatched write adds one to exactly one of the three counters:
  \<open>success\<close> counts the writes that resolved, \<open>throttled\<close> those rejected with the
  throughput exception, \<open>errors\<close> all other rejections, and the three add up to the
  number of writes dispatched. \<open>totalAttempts\<close> is not counted: it is the configured
  \<open>WRITE_COUNT\<close>. Whenever \<open>WRITE_COUNT\<close> is an integer from 0 to \<open>2 ^ 32 - 1\<close>, that
  many writes are dispatched and \<open>totalAttempts\<close> equals the sum of the three counters.
\<close>

theorem writer_counters_partition:
  "success (run_writes env store)
     = length (filter (\<lambda>out. out = Resolved) (map store (dispatched env))) \<and>
   throttled (run_writes env store) = length (filter is_throttle (map store (dispatched env))) \<and>
   errors (run_writes env store)
     = length (filter (\<lambda>out. out \<noteq> Resolved \<and> \<not> is_throttle out) (map store (dispatched env))) \<and>
   success (run_writes env store) + throttled (run_writes env store)
     + errors (run_writes env store) = length (dispatched env) \<and>
   totalAttempts (run_writes env store) = WRITE_COUNT env \<and>
   (\<forall>n. WRITE_COUNT env = Num n \<and> 0 \<le> n \<and> n < 2 ^ 32 \<longrightarrow>
      length (dispatched env) = nat n \<and>
      totalAttempts (run_writes env store)
        = Num (int (success (run_writes env store) + throttled (run_writes env store)
            + errors (run_writes env store))))"
proof -
  have "success (run_writes env store)
      = length (filter (\<lambda>out. out = Resolved) (map store (dispatched env)))"
    by (simp add: run_writes_def tally_success)
  moreover have "errors (run_writes env store)
      = length (filter (\<lambda>out. out \<noteq> Resolved \<and> \<not> is_throttle out) (map store (dispatched env)))"
    by (simp add: run_writes_def tally_errors)
  moreover have "\<forall>n. WRITE_COUNT env = Num n \<and> 0 \<le> n \<and> n < 2 ^ 32 \<longrightarrow>
      length (dispatched env) = nat n \<and>
      totalAttempts (run_writes env store)
        = Num (int (success (run_writes env store) + throttled (run_writes env store)
            + errors (run_writes env store)))"
    by (simp add: sum_run total_run dispatched_Num)
  ultimately show ?thesis
    using throttled_run [of env store] sum_run [of env store] total_run [of env store]
    by blast
qed

text \<open>Witness of C2 (as amended): the batch of 50 with ten throttled writes.\<close>

theorem writer_counters_partition_witness:
  "WRITE_COUNT (Some ''50'') = Num 50 \<and> (0::int) \<le> 50 \<and> (50::int) < 2 ^ 32 \<and>
   success (run_writes (Some ''50'') store_throttles_from_40) = 40 \<and>
   throttled (run_writes (Some ''50'') store_throttles_from_40) = 10 \<and>
   errors (run_writes (Some ''50'') store_throttles_from_40) = 0 \<and>
   length (dispatched (Some ''50'')) = 50 \<and>
   totalAttempts (run_writes (Some ''50'') store_throttles_from_40) = Num (int (40 + 10 + 0))"
proof -
  have w: "WRITE_COUNT (Some ''50'') = Num 50"
    by code_simp
  have s: "success (run_writes (Some ''50'') store_throttles_from_40) = 40"
    by code_simp
  have t: "throttled (run_writes (Some ''50'') store_throttles_from_40) = 10"
    by code_simp
  have e: "errors (run_writes (Some ''50'') store_throttles_from_40) = 0"
    by code_simp
  have "\<forall>n. WRITE_COUNT (Some ''50'') = Num n \<and> 0 \<le> n \<and> n < 2 ^ 32 \<longrightarrow>
      length (dispatched (Some ''50'')) = nat n \<and>
      totalAttempts (run_writes (Some ''50'') store_throttles_from_40)
        = Num (int (success (run_writes (Some ''50'') store_throttles_from_40)
            + throttled (run_writes (Some ''50'') store_throttles_from_40)
            + errors (run_writes (Some ''50'') store_throttles_from_40)))"
    using writer_counters_partition [of "Some ''50''" store_throttles_from_40] by blast
  with w have "length (dispatched (Some ''50'')) = nat 50 \<and>
      totalAttempts (run_writes (Some ''50'') store_throttles_from_40)
      = Num (int (success (run_writes (Some ''50'') store_throttles_from_40)
          + throttled (run_writes (Some ''50'') store_throttles_from_40)
          + errors (run_writes (Some ''50'') store_throttles_from_40)))"
    by simp
  then have "length (dispatched (Some ''50'')) = 50 \<and>
      totalAttempts (run_writes (Some ''50'') store_throttles_from_40)
      = Num (int (40 + 10 + 0))"
    unfolding s t e by simp
  with w s t e show ?thesis by simp
qed

text \<open>Counterexample to C2 as stated: with \<open>WRITE_COUNT=-1\<close> no write is dispatched, the
  invocation returns normally, and the result has \<open>totalAttempts = -1\<close> beside three
  counters that are 0.\<close>

theorem writer_invariant_counterexample:
  "handler_writer (Some ''-1'') store_never_throttles
     = Inr \<lparr>success = 0, throttled = 0, errors = 0, totalAttempts = Num (- 1)\<rparr> \<and>
   totalAttempts (run_writes (Some ''-1'') store_never_throttles)
     \<noteq> Num (int (success (run_writes (Some ''-1'') store_never_throttles)
          + throttled (run_writes (Some ''-1'') store_never_throttles)
          + errors (run_writes (Some ''-1'') store_never_throttles)))"
  by code_simp

text \<open>
  C3 (as amended). The writer does not validate the batch size. With a count of 0 no
  write is dispatched, and the invocation returns the result whose four fields are 0 as
  a normal success.
\<close>

theorem writer_count_zero:
  "WRITE_COUNT env = Num 0 \<Longrightarrow>
     dispatched env = [] \<and>
     handler_writer env store
       = Inr \<lparr>success = 0, throttled = 0, errors = 0, totalAttempts = Num 0\<rparr>"
  by (simp add: dispatched_def array_indices_def handler_writer_def run_writes_def tally_Nil)

theorem writer_count_zero_witness:
  "WRITE_COUNT (Some ''0'') = Num 0 \<and>
   dispatched (Some ''0'') = [] \<and>
   handler_writer (Some ''0'') store_throttles_from_40
     = Inr \<lparr>success = 0, throttled = 0, errors = 0, totalAttempts = Num 0\<rparr>"
proof -
  have w: "WRITE_COUNT (Some ''0'') = Num 0"
    by code_simp
  from writer_count_zero [OF w, of store_throttles_from_40] w show ?thesis by simp
qed

text \<open>Counterexample to C3 as stated: the invocation with a count of 0 is not rejected,
  it returns a result.\<close>

theorem writer_count_zero_counterexample:
  "WRITE_COUNT (Some ''0'') = Num 0 \<and>
   \<not> isl (handler_writer (Some ''0'') store_never_throttles) \<and>
   handler_writer (Some ''0'') store_never_throttles
     = Inr \<lparr>success = 0, throttled = 0, errors = 0, totalAttempts = Num 0\<rparr>"
  by code_simp

section \<open>Properties of the notifier\<close>

subsection \<open>White space\<close>

lemma ws_encodings_nonempty: "w \<in> set ws_encodings \<Longrightarrow> w \<noteq> []"
  by (auto simp: ws_encodings_def)

lemma ws_encodings_no_hyphen: "w \<in> set ws_encodings \<Longrightarrow> CHR ''-'' \<notin> set w"
  by (auto simp: ws_encodings_def)

lemma ws_len_pos_iff: "0 < ws_len s \<longleftrightarrow> (\<exists>w \<in> set ws_encodings. prefix w s)"
proof
  assume "0 < ws_len s"
  then obtain w where "find (\<lambda>w. prefix w s) ws_encodings = Some w"
    by (auto simp: ws_len_def split: option.splits)
  then show "\<exists>w \<in> set ws_encodings. prefix w s"
    by (auto simp: find_Some_iff)
next
  assume "\<exists>w \<in> set ws_encodings. prefix w s"
  then obtain w where "find (\<lambda>w. prefix w s) ws_encodings = Some w"
    by (cases "find (\<lambda>w. prefix w s) ws_encodings") (auto simp: find_None_iff)
  moreover from this have "w \<in> set ws_encodings"
    by (auto simp: find_Some_iff)
  ultimately show "0 < ws_len s"
    using ws_encodings_nonempty [of w] by (simp add: ws_len_def)
qed

lemma prefix_replace_ws:
  "prefix w (replace_ws s) \<Longrightarrow> CHR ''-'' \<notin> set w \<Longrightarrow> prefix w s"
proof (induction w arbitrary: s)
  case Nil
  show ?case by simp
next
  case (Cons x w)
  from Cons.prems(1) have ne: "s \<noteq> []"
    by (subst (asm) replace_ws.simps) (auto split: if_splits)
  show ?case
  proof (cases "0 < ws_len s")
    case True
    with ne have "replace_ws s = CHR ''-'' # replace_ws (skip_ws s)"
      by (subst replace_ws.simps) simp
    with Cons.prems show ?thesis by simp
  next
    case False
    with ne have r: "replace_ws s = hd s # replace_ws (tl s)"
      by (subst replace_ws.simps) simp
    with Cons.prems have "x = hd s" "prefix w (replace_ws (tl s))" "CHR ''-'' \<notin> set w"
      by simp_all
    with Cons.IH [of "tl s"] ne show ?thesis
      by (cases s) simp_all
  qed
qed

lemma ws_len_replace_ws:
  assumes "ws_len (c # cs) = 0"
  shows "ws_len (c # replace_ws cs) = 0"
proof (rule ccontr)
  assume "ws_len (c # replace_ws cs) \<noteq> 0"
  then obtain w where w: "w \<in> set ws_encodings" "prefix w (c # replace_ws cs)"
    using ws_len_pos_iff [of "c # replace_ws cs"] by auto
  from w(1) have "w \<noteq> []" by (rule ws_encodings_nonempty)
  with w(2) obtain w' where w': "w = c # w'" "prefix w' (replace_ws cs)"
    by (cases w) auto
  from w(1) w'(1) have "CHR ''-'' \<notin> set w'"
    using ws_encodings_no_hyphen [of w] by simp
  with w'(2) have "prefix w' cs" by (rule prefix_replace_ws)
  with w'(1) have "prefix w (c # cs)" by simp
  with w(1) have "\<exists>w \<in> set ws_encodings. prefix w (c # cs)" by blast
  then have "0 < ws_len (c # cs)" by (simp only: ws_len_pos_iff)
  with assms show False by simp
qed

lemma ws_len_hyphen: "ws_len (CHR ''-'' # r) = 0"
proof (rule ccontr)
  assume "ws_len (CHR ''-'' # r) \<noteq> 0"
  then obtain w where w: "w \<in> set ws_encodings" "prefix w (CHR ''-'' # r)"
    using ws_len_pos_iff [of "CHR ''-'' # r"] by auto
  from w(1) have "w \<noteq> []" by (rule ws_encodings_nonempty)
  with w(2) have "CHR ''-'' \<in> set w" by (cases w) auto
  with w(1) show False using ws_encodings_no_hyphen [of w] by simp
qed

lemma replace_ws_no_ws: "\<not> has_ws (replace_ws s)"
proof (induction s rule: replace_ws.induct)
  case (1 s)
  show ?case
  proof (cases "s = []")
    case True
    then show ?thesis by (subst replace_ws.simps) simp
  next
    case ne: False
    show ?thesis
    proof (cases "0 < ws_len s")
      case True
      with ne have "replace_ws s = CHR ''-'' # replace_ws (skip_ws s)"
        by (subst replace_ws.simps) simp
      moreover from 1(1) ne True have "\<not> has_ws (replace_ws (skip_ws s))" by simp
      ultimately show ?thesis by (simp add: ws_len_hyphen)
    next
      case False
      with ne have r: "replace_ws s = hd s # replace_ws (tl s)"
        by (subst replace_ws.simps) simp
      from 1(2) ne False have ih: "\<not> has_ws (replace_ws (tl s))" by simp
      from ne False have "ws_len (hd s # tl s) = 0" by simp
      then have "ws_len (hd s # replace_ws (tl s)) = 0" by (rule ws_len_replace_ws)
      with r ih show ?thesis by simp
    qed
  qed
qed

lemma replace_ws_id: "\<not> has_ws s \<Longrightarrow> replace_ws s = s"
proof (induction s)
  case Nil
  show ?case by (subst replace_ws.simps) simp
next
  case (Cons c cs)
  then have "ws_len (c # cs) = 0" "replace_ws cs = cs" by simp_all
  then show ?case by (subst replace_ws.simps) simp
qed

lemma skip_ws_done: "ws_len (skip_ws s) = 0"
proof (induction s rule: skip_ws.induct)
  case (1 s)
  show ?case
  proof (cases "0 < ws_len s")
    case True
    with 1 show ?thesis by (subst skip_ws.simps) simp
  next
    case False
    then show ?thesis by (subst skip_ws.simps) simp
  qed
qed


text \<open>In \<open>part_000\<close> the token before the timestamp is free of white space, every run of
  white space having become one hyphen, and a name without white space is kept as it
  is.\<close>

lemma incidentId_normalised:
  "incidentId (buildWebhookPayload env now name reason ts rg acc arn)
     = replace_ws name @ ''-'' @ number_toString (Some now) \<and>
   \<not> has_ws (replace_ws name) \<and>
   (\<not> has_ws name \<longrightarrow> replace_ws name = name)"
  by (simp add: buildWebhookPayload_def replace_ws_no_ws replace_ws_id)

lemma incidentId_001_verbatim:
  "incidentId_001 (buildWebhookPayload_001 env now name reason ts)
     = name @ ''-'' @ number_toString (Some now)"
  by (simp add: buildWebhookPayload_001_def)

text \<open>
  C4. The identifier of the incident is the alarm name with its white space collapsed,
  a hyphen, and the reading of the clock in milliseconds. \<open>part_000\<close> does so (lemma
  \<open>incidentId_normalised\<close>); \<open>part_001\<close> appends the timestamp to the name as it is.
  For the alarm name \<open>my alarm\<close> at the clock reading 1704067200000, \<open>part_001\<close> keeps
  the space in the identifier, where \<open>part_000\<close> gives \<open>my-alarm-1704067200000\<close>.
\<close>

theorem incidentId_001_keeps_white_space:
  "incidentId_001
     (buildWebhookPayload_001 (example_env ''false'' [] []) 1704067200000 ''my alarm''
        ''Threshold Crossed'' ''2024-01-01T00:00:00Z'')
     = ''my alarm-1704067200000'' \<and>
   has_ws ''my alarm-1704067200000'' \<and>
   incidentId
     (buildWebhookPayload (example_env ''false'' [] []) 1704067200000 ''my alarm''
        ''Threshold Crossed'' ''2024-01-01T00:00:00Z'' ''us-east-1'' ''unknown'' [])
     = ''my-alarm-1704067200000''"
proof -
  have n: "number_toString (Some 1704067200000) = ''1704067200000''"
    by (simp add: number_toString_def dec.simps digit_char_def)
  have r: "replace_ws ''my alarm'' = ''my-alarm''"
    by (simp add: replace_ws.simps skip_ws.simps ws_len_def ws_encodings_def)
  have w: "has_ws ''my alarm-1704067200000''"
    by (simp add: ws_len_def ws_encodings_def)
  from n r w show ?thesis
    by (simp add: buildWebhookPayload_def buildWebhookPayload_001_def)
qed

subsection \<open>The branches of the handler\<close>

lemma handler_not_alarm:
  "alarmState_of event \<noteq> ''ALARM'' \<Longrightarrow>
     handler env rt event = \<lparr>result = Inr (), built = [], sent = []\<rparr>"
  by (simp add: handler_def Let_def)

lemma handler_001_not_alarm:
  "alarmState_of event \<noteq> ''ALARM'' \<Longrightarrow>
     handler_001 env rt event = \<lparr>result = Inr (), built = [], sent = []\<rparr>"
  by (simp add: handler_001_def Let_def)

lemma handler_dry_run:
  "alarmState_of event = ''ALARM'' \<Longrightarrow> \<not> WEBHOOK_ENABLED env \<Longrightarrow>
     handler env rt event =
       \<lparr>result = Inr (),
        built = [buildWebhookPayload env (Date_now rt) (alarmName_of event)
                   (stateReason_of event) (timestamp_of rt event)
                   (or_default (ev_region event) ''us-east-1'')
                   (or_default (ev_accountId event) ''unknown'')
                   (or_default (ev_alarmArn event) [])],
        sent = []\<rparr>"
  by (simp add: handler_def Let_def)

lemma handler_001_dry_run:
  "alarmState_of event = ''ALARM'' \<Longrightarrow> \<not> WEBHOOK_ENABLED env \<Longrightarrow>
     handler_001 env rt event =
       \<lparr>result = Inr (),
        built = [buildWebhookPayload_001 env (Date_now rt) (alarmName_of event)
                   (stateReason_of event) (timestamp_of rt event)],
        sent = []\<rparr>"
  by (simp add: handler_001_def Let_def)

lemma handler_config_error:
  "alarmState_of event = ''ALARM'' \<Longrightarrow> WEBHOOK_ENABLED env \<Longrightarrow>
   WEBHOOK_URL env = [] \<or> WEBHOOK_SECRET env = [] \<Longrightarrow>
     handler env rt event = \<lparr>result = Inl (config_error env), built = [], sent = []\<rparr>"
  by (auto simp add: handler_def Let_def config_error_def)

lemma handler_001_config_error:
  "alarmState_of event = ''ALARM'' \<Longrightarrow> WEBHOOK_ENABLED env \<Longrightarrow>
   WEBHOOK_URL env = [] \<or> WEBHOOK_SECRET env = [] \<Longrightarrow>
     handler_001 env rt event = \<lparr>result = Inl (config_error env), built = [], sent = []\<rparr>"
  by (auto simp add: handler_001_def Let_def config_error_def)

lemma handler_sends:
  "alarmState_of event = ''ALARM'' \<Longrightarrow> WEBHOOK_ENABLED env \<Longrightarrow>
   WEBHOOK_URL env \<noteq> [] \<Longrightarrow> WEBHOOK_SECRET env \<noteq> [] \<Longrightarrow>
     handler env rt event =
       (let payload =
              buildWebhookPayload env (Date_now rt) (alarmName_of event)
                (stateReason_of event) (timestamp_of rt event)
                (or_default (ev_region event) ''us-east-1'')
                (or_default (ev_accountId event) ''unknown'')
                (or_default (ev_alarmArn event) [])
        in \<lparr>result = fst (sendWebhook env rt payload), built = [payload],
            sent = snd (sendWebhook env rt payload)\<rparr>)"
  by (simp add: handler_def Let_def)

lemma handler_001_sends:
  "alarmState_of event = ''ALARM'' \<Longrightarrow> WEBHOOK_ENABLED env \<Longrightarrow>
   WEBHOOK_URL env \<noteq> [] \<Longrightarrow> WEBHOOK_SECRET env \<noteq> [] \<Longrightarrow>
     handler_001 env rt event =
       (let payload =
              buildWebhookPayload_001 env (Date_now rt) (alarmName_of event)
                (stateReason_of event) (timestamp_of rt event)
        in \<lparr>result = fst (sendWebhook env rt payload), built = [payload],
            sent = snd (sendWebhook env rt payload)\<rparr>)"
  by (simp add: handler_001_def Let_def)

text \<open>Whatever the handler sends is what \<open>sendWebhook\<close> sent for the one payload that
  was built.\<close>

lemma sent_handler:
  "req \<in> set (sent (handler env rt event)) \<Longrightarrow>
     \<exists>payload \<in> set (built (handler env rt event)). req \<in> set (snd (sendWebhook env rt payload))"
  by (simp add: handler_def Let_def split: if_splits)

lemma sent_handler_001:
  "req \<in> set (sent (handler_001 env rt event)) \<Longrightarrow>
     \<exists>payload \<in> set (built (handler_001 env rt event)).
        req \<in> set (snd (sendWebhook env rt payload))"
  by (simp add: handler_001_def Let_def split: if_splits)

subsection \<open>sendWebhook\<close>

lemma sendWebhook_no_url:
  "URL_parse rt (WEBHOOK_URL env) = None \<Longrightarrow>
     sendWebhook env rt payload = (Inl (JsError ''TypeError'' ''Invalid URL''), [])"
  by (simp add: sendWebhook_def)

lemma sendWebhook_sent:
  "snd (sendWebhook env rt payload) =
     (case URL_parse rt (WEBHOOK_URL env) of
        None \<Rightarrow> []
      | Some parsedUrl \<Rightarrow> [webhook_request env rt payload parsedUrl])"
  by (simp add: sendWebhook_def Let_def split: option.splits)

lemma sendWebhook_result:
  "URL_parse rt (WEBHOOK_URL env) = Some parsedUrl \<Longrightarrow>
     fst (sendWebhook env rt payload) =
       (case https_request rt (webhook_request env rt payload parsedUrl) of
          Response statusCode responseBody \<Rightarrow>
            if status_ok statusCode then Inr ()
            else Inl (Error (''Webhook failed with status '' @ status_toString statusCode
                              @ '': '' @ responseBody))
        | RequestError e \<Rightarrow> Inl e)"
  by (simp add: sendWebhook_def Let_def)

lemma webhook_request_signed:
  "signed_with (createHmac_digest rt) (WEBHOOK_SECRET env)
     (webhook_request env rt payload parsedUrl)"
  by (simp add: signed_with_def webhook_request_def Let_def)

lemma webhook_request_body:
  "req_body (webhook_request env rt payload parsedUrl) = JSON_stringify rt payload"
  by (simp add: webhook_request_def Let_def)

lemma sendWebhook_signed:
  "req \<in> set (snd (sendWebhook env rt payload)) \<Longrightarrow>
     signed_with (createHmac_digest rt) (WEBHOOK_SECRET env) req \<and>
     req_body req = JSON_stringify rt payload"
  by (auto simp: sendWebhook_sent webhook_request_signed webhook_request_body
           split: option.splits)

text \<open>The status test of the code is the interval of the specification: 0 is outside
  it anyway.\<close>

lemma status_ok_in_2xx: "status_ok statusCode = in_2xx statusCode"
  by (auto simp: status_ok_def in_2xx_def split: option.splits)

subsection \<open>The examples\<close>

lemma example_env_simps:
  "WEBHOOK_ENABLED (example_env enabled url secret) = (enabled = ''true'')"
  "WEBHOOK_URL (example_env enabled url secret) = url"
  "WEBHOOK_SECRET (example_env enabled url secret) = secret"
  by (auto simp: WEBHOOK_ENABLED_def WEBHOOK_URL_def WEBHOOK_SECRET_def example_env_def
                 or_default_def)

lemma example_event_state: "st \<noteq> [] \<Longrightarrow> alarmState_of (example_event st) = st"
  by (simp add: alarmState_of_def example_event_def or_default_def)

lemma empty_event_state:
  "Option.bind (Option.bind (ev_alarmData empty_event) ad_state) st_value = None"
  by (simp add: empty_event_def)

lemma stub_runtime_simps:
  "URL_parse (stub_runtime status serialise) ''https://example.test/hook'' = Some example_url"
  "https_request (stub_runtime status serialise) req = Response (Some status) ''stub''"
  "createHmac_digest (stub_runtime status serialise) = stub_hmac"
  by (simp_all add: stub_runtime_def stub_URL_parse_def stub_transport_def)

subsection \<open>Gate, dry run, configuration, signature and delivery\<close>

text \<open>
  C5 (as amended). For an event whose state is not \<open>ALARM\<close> the handler returns normally,
  builds no payload and sends nothing. For an event in state \<open>ALARM\<close> it builds the
  payload, unless the webhook is enabled with an empty URL or an empty secret: then it
  fails with the configuration error before any payload is built.
\<close>

theorem handler_state_gate:
  "(alarmState_of event \<noteq> ''ALARM'' \<longrightarrow>
      handler env rt event = \<lparr>result = Inr (), built = [], sent = []\<rparr> \<and>
      handler_001 env rt' event = \<lparr>result = Inr (), built = [], sent = []\<rparr>) \<and>
   (alarmState_of event = ''ALARM'' \<and>
    (\<not> WEBHOOK_ENABLED env \<or> WEBHOOK_URL env \<noteq> [] \<and> WEBHOOK_SECRET env \<noteq> []) \<longrightarrow>
      built (handler env rt event) =
        [buildWebhookPayload env (Date_now rt) (alarmName_of event) (stateReason_of event)
           (timestamp_of rt event) (or_default (ev_region event) ''us-east-1'')
           (or_default (ev_accountId event) ''unknown'') (or_default (ev_alarmArn event) [])] \<and>
      built (handler_001 env rt' event) =
        [buildWebhookPayload_001 env (Date_now rt') (alarmName_of event)
           (stateReason_of event) (timestamp_of rt' event)]) \<and>
   (alarmState_of event = ''ALARM'' \<and> WEBHOOK_ENABLED env \<and>
    (WEBHOOK_URL env = [] \<or> WEBHOOK_SECRET env = []) \<longrightarrow>
      handler env rt event = \<lparr>result = Inl (config_error env), built = [], sent = []\<rparr> \<and>
      handler_001 env rt' event = \<lparr>result = Inl (config_error env), built = [], sent = []\<rparr>)"
proof (intro conjI impI)
  assume "alarmState_of event \<noteq> ''ALARM''"
  then show "handler env rt event = \<lparr>result = Inr (), built = [], sent = []\<rparr>"
    and "handler_001 env rt' event = \<lparr>result = Inr (), built = [], sent = []\<rparr>"
    by (simp_all add: handler_not_alarm handler_001_not_alarm)
next
  assume a: "alarmState_of event = ''ALARM'' \<and>
    (\<not> WEBHOOK_ENABLED env \<or> WEBHOOK_URL env \<noteq> [] \<and> WEBHOOK_SECRET env \<noteq> [])"
  show "built (handler env rt event) =
        [buildWebhookPayload env (Date_now rt) (alarmName_of event) (stateReason_of event)
           (timestamp_of rt event) (or_default (ev_region event) ''us-east-1'')
           (or_default (ev_accountId event) ''unknown'') (or_default (ev_alarmArn event) [])]"
  proof (cases "WEBHOOK_ENABLED env")
    case True
    with a show ?thesis by (simp add: handler_sends Let_def)
  next
    case False
    with a show ?thesis by (simp add: handler_dry_run)
  qed
  show "built (handler_001 env rt' event) =
        [buildWebhookPayload_001 env (Date_now rt') (alarmName_of event)
           (stateReason_of event) (timestamp_of rt' event)]"
  proof (cases "WEBHOOK_ENABLED env")
    case True
    with a show ?thesis by (simp add: handler_001_sends Let_def)
  next
    case False
    with a show ?thesis by (simp add: handler_001_dry_run)
  qed
next
  assume a: "alarmState_of event = ''ALARM'' \<and> WEBHOOK_ENABLED env \<and>
    (WEBHOOK_URL env = [] \<or> WEBHOOK_SECRET env = [])"
  then show "handler env rt event = \<lparr>result = Inl (config_error env), built = [], sent = []\<rparr>"
    by (intro handler_config_error) simp_all
  from a show "handler_001 env rt' event
      = \<lparr>result = Inl (config_error env), built = [], sent = []\<rparr>"
    by (intro handler_001_config_error) simp_all
qed

text \<open>Witness of C5 (as amended): the example alarm in state \<open>OK\<close>; in state \<open>ALARM\<close> with
  the webhook disabled; and in state \<open>ALARM\<close> with the webhook enabled and no URL.\<close>

theorem handler_state_gate_witness:
  "alarmState_of (example_event ''OK'') \<noteq> ''ALARM'' \<and>
   handler (example_env ''true'' ''https://example.test/hook'' ''s3cr3t'')
     (stub_runtime 200 incidentId) (example_event ''OK'')
     = \<lparr>result = Inr (), built = [], sent = []\<rparr> \<and>
   alarmState_of (example_event ''ALARM'') = ''ALARM'' \<and>
   \<not> WEBHOOK_ENABLED (example_env ''false'' [] []) \<and>
   length (built (handler (example_env ''false'' [] []) (stub_runtime 200 incidentId)
                    (example_event ''ALARM''))) = 1 \<and>
   WEBHOOK_ENABLED (example_env ''true'' [] ''s3cr3t'') \<and>
   WEBHOOK_URL (example_env ''true'' [] ''s3cr3t'') = [] \<and>
   handler_001 (example_env ''true'' [] ''s3cr3t'') (stub_runtime 200 incidentId_001)
     (example_event ''ALARM'')
     = \<lparr>result = Inl (Error ''WEBHOOK_URL is required when WEBHOOK_ENABLED=true''),
        built = [], sent = []\<rparr>"
proof -
  have ok: "alarmState_of (example_event ''OK'') \<noteq> ''ALARM''"
    by (simp add: example_event_state)
  have al: "alarmState_of (example_event ''ALARM'') = ''ALARM''"
    by (simp add: example_event_state)
  have 1: "handler (example_env ''true'' ''https://example.test/hook'' ''s3cr3t'')
      (stub_runtime 200 incidentId) (example_event ''OK'')
      = \<lparr>result = Inr (), built = [], sent = []\<rparr>"
    using ok
      handler_state_gate [of "example_event ''OK''"
        "example_env ''true'' ''https://example.test/hook'' ''s3cr3t''"
        "stub_runtime 200 incidentId" "stub_runtime 200 incidentId_001"]
    by blast
  have 2: "length (built (handler (example_env ''false'' [] []) (stub_runtime 200 incidentId)
      (example_event ''ALARM''))) = 1"
    using al
      handler_state_gate [of "example_event ''ALARM''" "example_env ''false'' [] []"
        "stub_runtime 200 incidentId" "stub_runtime 200 incidentId_001"]
    by (simp add: example_env_simps)
  have 3: "handler_001 (example_env ''true'' [] ''s3cr3t'') (stub_runtime 200 incidentId_001)
      (example_event ''ALARM'')
      = \<lparr>result = Inl (config_error (example_env ''true'' [] ''s3cr3t'')), built = [],
         sent = []\<rparr>"
    using al
      handler_state_gate [of "example_event ''ALARM''" "example_env ''true'' [] ''s3cr3t''"
        "stub_runtime 200 incidentId" "stub_runtime 200 incidentId_001"]
    by (simp add: example_env_simps)
  from ok al 1 2 3 show ?thesis
    by (simp add: example_env_simps config_error_def)
qed

text \<open>Counterexample to C5 as stated: the example alarm is in state \<open>ALARM\<close>, the webhook
  is enabled and has no URL, and the handler fails without having built a payload.\<close>

theorem handler_state_gate_counterexample:
  "alarmState_of (example_event ''ALARM'') = ''ALARM'' \<and>
   built (handler (example_env ''true'' [] ''s3cr3t'') (stub_runtime 200 incidentId)
            (example_event ''ALARM'')) = [] \<and>
   result (handler (example_env ''true'' [] ''s3cr3t'') (stub_runtime 200 incidentId)
             (example_event ''ALARM''))
     = Inl (Error ''WEBHOOK_URL is required when WEBHOOK_ENABLED=true'')"
  by (simp add: handler_def Let_def example_event_state example_env_simps)

text \<open>
  C6. With the webhook disabled the handler sends nothing and returns normally, for
  every event, every URL and every secret.
\<close>

theorem dry_run_no_network:
  "\<not> WEBHOOK_ENABLED env \<Longrightarrow>
     result (handler env rt event) = Inr () \<and> sent (handler env rt event) = [] \<and>
     result (handler_001 env rt' event) = Inr () \<and> sent (handler_001 env rt' event) = []"
  by (cases "alarmState_of event = ''ALARM''")
     (simp_all add: handler_not_alarm handler_001_not_alarm handler_dry_run
        handler_001_dry_run)

theorem dry_run_no_network_witness:
  "\<not> WEBHOOK_ENABLED (example_env ''false'' ''https://example.test/hook'' []) \<and>
   result (handler (example_env ''false'' ''https://example.test/hook'' [])
             (stub_runtime 500 incidentId) (example_event ''ALARM'')) = Inr () \<and>
   sent (handler (example_env ''false'' ''https://example.test/hook'' [])
           (stub_runtime 500 incidentId) (example_event ''ALARM'')) = [] \<and>
   result (handler_001 (example_env ''false'' ''https://example.test/hook'' [])
             (stub_runtime 500 incidentId_001) (example_event ''ALARM'')) = Inr () \<and>
   sent (handler_001 (example_env ''false'' ''https://example.test/hook'' [])
           (stub_runtime 500 incidentId_001) (example_event ''ALARM'')) = []"
proof -
  have d: "\<not> WEBHOOK_ENABLED (example_env ''false'' ''https://example.test/hook'' [])"
    by (simp add: example_env_simps)
  from d dry_run_no_network [OF d, of "stub_runtime 500 incidentId" "example_event ''ALARM''"
      "stub_runtime 500 incidentId_001"]
  show ?thesis by simp
qed

text \<open>
  C7. The sender is reached for an event in state \<open>ALARM\<close>. When the webhook is enabled
  and the URL or the secret is empty, the handler then fails with the configuration
  error, and nothing has gone to the transport.
\<close>

theorem preflight_config_error:
  "alarmState_of event = ''ALARM'' \<Longrightarrow> WEBHOOK_ENABLED env \<Longrightarrow>
   WEBHOOK_URL env = [] \<or> WEBHOOK_SECRET env = [] \<Longrightarrow>
     result (handler env rt event) = Inl (config_error env) \<and>
     sent (handler env rt event) = [] \<and>
     result (handler_001 env rt' event) = Inl (config_error env) \<and>
     sent (handler_001 env rt' event) = []"
  by (simp add: handler_config_error handler_001_config_error)

theorem preflight_config_error_witness:
  "alarmState_of (example_event ''ALARM'') = ''ALARM'' \<and>
   WEBHOOK_ENABLED (example_env ''true'' ''https://example.test/hook'' []) \<and>
   WEBHOOK_SECRET (example_env ''true'' ''https://example.test/hook'' []) = [] \<and>
   result (handler (example_env ''true'' ''https://example.test/hook'' [])
             (stub_runtime 200 incidentId) (example_event ''ALARM''))
     = Inl (Error ''WEBHOOK_SECRET is required when WEBHOOK_ENABLED=true'') \<and>
   sent (handler (example_env ''true'' ''https://example.test/hook'' [])
           (stub_runtime 200 incidentId) (example_event ''ALARM'')) = [] \<and>
   result (handler_001 (example_env ''true'' ''https://example.test/hook'' [])
             (stub_runtime 200 incidentId_001) (example_event ''ALARM''))
     = Inl (Error ''WEBHOOK_SECRET is required when WEBHOOK_ENABLED=true'') \<and>
   sent (handler_001 (example_env ''true'' ''https://example.test/hook'' [])
           (stub_runtime 200 incidentId_001) (example_event ''ALARM'')) = []"
proof -
  have al: "alarmState_of (example_event ''ALARM'') = ''ALARM''"
    by (simp add: example_event_state)
  have en: "WEBHOOK_ENABLED (example_env ''true'' ''https://example.test/hook'' [])"
    by (simp add: example_env_simps)
  have se: "WEBHOOK_URL (example_env ''true'' ''https://example.test/hook'' []) = [] \<or>
      WEBHOOK_SECRET (example_env ''true'' ''https://example.test/hook'' []) = []"
    by (simp add: example_env_simps)
  have ce: "config_error (example_env ''true'' ''https://example.test/hook'' [])
      = Error ''WEBHOOK_SECRET is required when WEBHOOK_ENABLED=true''"
    by (simp add: config_error_def example_env_simps)
  from preflight_config_error [OF al en se, of "stub_runtime 200 incidentId"
      "stub_runtime 200 incidentId_001"] al en
  show ?thesis unfolding ce by (simp add: example_env_simps)
qed

text \<open>
  C8. Every request that goes to the transport is signed: its signature header is the
  keyed hash (\<open>sha256\<close>, \<open>base64\<close>), under the secret, of its timestamp header, a colon
  and the body that is written to the request, and that body is the one serialisation
  of the payload. The signature is a function of the secret, the timestamp and the body:
  two signed requests that agree on these agree on the signature.
\<close>

theorem sent_requests_signed:
  "(\<forall>req \<in> set (snd (sendWebhook env rt payload)).
      signed_with (createHmac_digest rt) (WEBHOOK_SECRET env) req \<and>
      req_body req = JSON_stringify rt payload) \<and>
   (\<forall>req \<in> set (sent (handler env rt0 event)).
      signed_with (createHmac_digest rt0) (WEBHOOK_SECRET env) req \<and>
      (\<exists>p \<in> set (built (handler env rt0 event)). req_body req = JSON_stringify rt0 p)) \<and>
   (\<forall>req \<in> set (sent (handler_001 env rt1 event)).
      signed_with (createHmac_digest rt1) (WEBHOOK_SECRET env) req \<and>
      (\<exists>p \<in> set (built (handler_001 env rt1 event)). req_body req = JSON_stringify rt1 p)) \<and>
   (\<forall>hmac secret req req'.
      signed_with hmac secret req \<and> signed_with hmac secret req' \<and>
      map_of (req_headers req) ''x-amzn-event-timestamp''
        = map_of (req_headers req') ''x-amzn-event-timestamp'' \<and>
      req_body req = req_body req' \<longrightarrow>
      map_of (req_headers req) ''x-amzn-event-signature''
        = map_of (req_headers req') ''x-amzn-event-signature'')"
proof (intro conjI ballI allI impI)
  fix req
  assume "req \<in> set (snd (sendWebhook env rt payload))"
  then show "signed_with (createHmac_digest rt) (WEBHOOK_SECRET env) req"
    and "req_body req = JSON_stringify rt payload"
    by (simp_all add: sendWebhook_signed)
next
  fix req
  assume "req \<in> set (sent (handler env rt0 event))"
  then obtain p where p: "p \<in> set (built (handler env rt0 event))"
      "req \<in> set (snd (sendWebhook env rt0 p))"
    using sent_handler by blast
  from p(2) show "signed_with (createHmac_digest rt0) (WEBHOOK_SECRET env) req"
    by (simp add: sendWebhook_signed)
  from p(2) have "req_body req = JSON_stringify rt0 p"
    by (simp add: sendWebhook_signed)
  with p(1) show "\<exists>p \<in> set (built (handler env rt0 event)).
      req_body req = JSON_stringify rt0 p"
    by blast
next
  fix req
  assume "req \<in> set (sent (handler_001 env rt1 event))"
  then obtain p where p: "p \<in> set (built (handler_001 env rt1 event))"
      "req \<in> set (snd (sendWebhook env rt1 p))"
    using sent_handler_001 by blast
  from p(2) show "signed_with (createHmac_digest rt1) (WEBHOOK_SECRET env) req"
    by (simp add: sendWebhook_signed)
  from p(2) have "req_body req = JSON_stringify rt1 p"
    by (simp add: sendWebhook_signed)
  with p(1) show "\<exists>p \<in> set (built (handler_001 env rt1 event)).
      req_body req = JSON_stringify rt1 p"
    by blast
next
  fix hmac :: "string \<Rightarrow> string \<Rightarrow> string \<Rightarrow> string \<Rightarrow> string"
  fix secret :: string and req req' :: http_request
  assume "signed_with hmac secret req \<and> signed_with hmac secret req' \<and>
      map_of (req_headers req) ''x-amzn-event-timestamp''
        = map_of (req_headers req') ''x-amzn-event-timestamp'' \<and>
      req_body req = req_body req'"
  then show "map_of (req_headers req) ''x-amzn-event-signature''
        = map_of (req_headers req') ''x-amzn-event-signature''"
    by (auto simp: signed_with_def split: option.splits)
qed

text \<open>Witness of C8: the example alarm, sent with the secret \<open>s3cr3t\<close> through the stubs.
  The stand-in for the keyed hash shows what was signed.\<close>

theorem sent_requests_signed_witness:
  "sent (handler (example_env ''true'' ''https://example.test/hook'' ''s3cr3t'')
           (stub_runtime 200 incidentId) (example_event ''ALARM'')) \<noteq> [] \<and>
   signed_with stub_hmac ''s3cr3t''
     (hd (sent (handler (example_env ''true'' ''https://example.test/hook'' ''s3cr3t'')
                  (stub_runtime 200 incidentId) (example_event ''ALARM'')))) \<and>
   req_body
     (hd (sent (handler (example_env ''true'' ''https://example.test/hook'' ''s3cr3t'')
                  (stub_runtime 200 incidentId) (example_event ''ALARM''))))
     = ''demo-devops-agent-dynamodb-write-throttle-1704067200000'' \<and>
   map_of (req_headers
     (hd (sent (handler (example_env ''true'' ''https://example.test/hook'' ''s3cr3t'')
                  (stub_runtime 200 incidentId) (example_event ''ALARM'')))))
     ''x-amzn-event-signature''
     = Some (''sha256|s3cr3t|2024-01-01T00:00:02.000Z:''
             @ ''demo-devops-agent-dynamodb-write-throttle-1704067200000'' @ ''|base64'')"
proof -
  define env where "env = example_env ''true'' ''https://example.test/hook'' ''s3cr3t''"
  define rt where "rt = (stub_runtime 200 incidentId :: DevOpsAgentWebhookPayload runtime)"
  define event where "event = example_event ''ALARM''"
  define req where "req = hd (sent (handler env rt event))"
  have al: "alarmState_of event = ''ALARM''"
    by (simp add: event_def example_event_state)
  have nw: "\<not> has_ws ''demo-devops-agent-dynamodb-write-throttle''"
    by (simp add: ws_len_def ws_encodings_def)
  have n: "number_toString (Some 1704067200000) = ''1704067200000''"
    by (simp add: number_toString_def dec.simps digit_char_def)
  have name: "alarmName_of event = ''demo-devops-agent-dynamodb-write-throttle''"
    by (simp add: event_def alarmName_of_def example_event_def or_default_def)
  have s: "sent (handler env rt event) =
      [webhook_request env rt
         (buildWebhookPayload env (Date_now rt) (alarmName_of event) (stateReason_of event)
            (timestamp_of rt event) (or_default (ev_region event) ''us-east-1'')
            (or_default (ev_accountId event) ''unknown'') (or_default (ev_alarmArn event) []))
         example_url]"
    using al
    by (simp add: handler_sends env_def rt_def example_env_simps Let_def sendWebhook_sent
          stub_runtime_simps)
  then have ne: "sent (handler env rt event) \<noteq> []" and mem: "req \<in> set (sent (handler env rt event))"
    by (simp_all add: req_def)
  from mem have sg: "signed_with (createHmac_digest rt) (WEBHOOK_SECRET env) req"
    using sent_requests_signed [of env rt _ rt event] by blast
  then have sg': "signed_with stub_hmac ''s3cr3t'' req"
    by (simp add: rt_def env_def stub_runtime_simps example_env_simps)
  have rq: "req = webhook_request env rt
      (buildWebhookPayload env (Date_now rt) (alarmName_of event) (stateReason_of event)
         (timestamp_of rt event) (or_default (ev_region event) ''us-east-1'')
         (or_default (ev_accountId event) ''unknown'') (or_default (ev_alarmArn event) []))
      example_url"
    unfolding req_def s by simp
  have body: "req_body req = ''demo-devops-agent-dynamodb-write-throttle-1704067200000''"
    unfolding rq webhook_request_body
    using name n replace_ws_id [OF nw]
    by (simp add: buildWebhookPayload_def rt_def stub_runtime_def)
  have ts: "map_of (req_headers req) ''x-amzn-event-timestamp'' = Some ''2024-01-01T00:00:02.000Z''"
    unfolding rq by (simp add: webhook_request_def Let_def rt_def stub_runtime_def)
  from sg' ts body have
    "map_of (req_headers req) ''x-amzn-event-signature''
       = Some (''sha256|s3cr3t|2024-01-01T00:00:02.000Z:''
               @ ''demo-devops-agent-dynamodb-write-throttle-1704067200000'' @ ''|base64'')"
    by (simp add: signed_with_def stub_hmac_def)
  with ne sg' body show ?thesis
    unfolding req_def env_def rt_def event_def by blast
qed

text \<open>
  C9. When a request has gone to the transport, the promise of \<open>sendWebhook\<close> resolves
  for a status from 200 to 299 and is rejected otherwise: for any other status, and for
  a missing one, with an error whose message holds the status and the body of the
  response; for an error of the transport with that error. For the status 500 the
  message is "Webhook failed with status 500: " and the body.
\<close>

theorem delivery_outcome:
  "URL_parse rt (WEBHOOK_URL env) = Some parsedUrl \<Longrightarrow>
     snd (sendWebhook env rt payload) = [webhook_request env rt payload parsedUrl] \<and>
     (\<forall>c body. https_request rt (webhook_request env rt payload parsedUrl)
                 = Response (Some c) body \<and> 200 \<le> c \<and> c < 300 \<longrightarrow>
        fst (sendWebhook env rt payload) = Inr ()) \<and>
     (\<forall>statusCode body. https_request rt (webhook_request env rt payload parsedUrl)
                 = Response statusCode body \<and> \<not> in_2xx statusCode \<longrightarrow>
        fst (sendWebhook env rt payload)
          = Inl (Error (''Webhook failed with status '' @ status_toString statusCode
                         @ '': '' @ body))) \<and>
     (\<forall>body. https_request rt (webhook_request env rt payload parsedUrl)
                 = Response (Some 500) body \<longrightarrow>
        fst (sendWebhook env rt payload)
          = Inl (Error (''Webhook failed with status 500: '' @ body))) \<and>
     (\<forall>e. https_request rt (webhook_request env rt payload parsedUrl) = RequestError e \<longrightarrow>
        fst (sendWebhook env rt payload) = Inl e)"
proof -
  assume u: "URL_parse rt (WEBHOOK_URL env) = Some parsedUrl"
  have n500: "status_toString (Some 500) = ''500''"
    by (simp add: status_toString_def number_toString_def dec.simps digit_char_def)
  have "\<not> in_2xx (Some 500)"
    by (simp add: in_2xx_def)
  with u n500 show ?thesis
    by (auto simp: sendWebhook_sent sendWebhook_result status_ok_in_2xx in_2xx_def)
qed

text \<open>Witness of C9: the third end-to-end example, a transport that answers 500, and
  the same request against a transport that answers 204.\<close>

theorem delivery_outcome_witness:
  "URL_parse (stub_runtime 500 incidentId)
     (WEBHOOK_URL (example_env ''true'' ''https://example.test/hook'' ''s3cr3t''))
     = Some example_url \<and>
   fst (sendWebhook (example_env ''true'' ''https://example.test/hook'' ''s3cr3t'')
          (stub_runtime 500 incidentId)
          (buildWebhookPayload (example_env ''true'' ''https://example.test/hook'' ''s3cr3t'')
             1704067200000 ''demo'' ''Threshold Crossed'' ''2024-01-01T00:00:00Z''
             ''us-east-1'' ''unknown'' []))
     = Inl (Error ''Webhook failed with status 500: stub'') \<and>
   fst (sendWebhook (example_env ''true'' ''https://example.test/hook'' ''s3cr3t'')
          (stub_runtime 204 incidentId)
          (buildWebhookPayload (example_env ''true'' ''https://example.test/hook'' ''s3cr3t'')
             1704067200000 ''demo'' ''Threshold Crossed'' ''2024-01-01T00:00:00Z''
             ''us-east-1'' ''unknown'' []))
     = Inr ()"
proof -
  define env where "env = example_env ''true'' ''https://example.test/hook'' ''s3cr3t''"
  define payload where "payload = buildWebhookPayload env 1704067200000 ''demo''
      ''Threshold Crossed'' ''2024-01-01T00:00:00Z'' ''us-east-1'' ''unknown'' []"
  have u: "URL_parse (stub_runtime status incidentId) (WEBHOOK_URL env) = Some example_url"
    for status
    by (simp add: env_def example_env_simps stub_runtime_simps)
  have "fst (sendWebhook env (stub_runtime 500 incidentId) payload)
      = Inl (Error (''Webhook failed with status 500: '' @ ''stub''))"
    using delivery_outcome [OF u [of 500], of payload]
    by (simp add: stub_runtime_simps)
  moreover have "fst (sendWebhook env (stub_runtime 204 incidentId) payload) = Inr ()"
    using delivery_outcome [OF u [of 204], of payload]
    by (simp add: stub_runtime_simps)
  ultimately show ?thesis
    using u [of 500] unfolding env_def payload_def by simp
qed

text \<open>
  C10. An event without \<open>alarmData\<close>, without \<open>alarmData.state\<close> or without
  \<open>alarmData.state.value\<close> has the state \<open>UNKNOWN\<close>; for every configuration of the
  webhook the handler then returns normally, builds no payload and sends nothing.
\<close>

theorem missing_state_is_unknown:
  "Option.bind (Option.bind (ev_alarmData event) ad_state) st_value = None \<Longrightarrow>
     alarmState_of event = ''UNKNOWN'' \<and>
     handler env rt event = \<lparr>result = Inr (), built = [], sent = []\<rparr> \<and>
     handler_001 env rt' event = \<lparr>result = Inr (), built = [], sent = []\<rparr>"
proof -
  assume "Option.bind (Option.bind (ev_alarmData event) ad_state) st_value = None"
  then have u: "alarmState_of event = ''UNKNOWN''"
    by (simp add: alarmState_of_def or_default_def)
  then have "alarmState_of event \<noteq> ''ALARM''" by simp
  with u show ?thesis
    by (simp add: handler_not_alarm handler_001_not_alarm)
qed

theorem missing_state_is_unknown_witness:
  "Option.bind (Option.bind (ev_alarmData empty_event) ad_state) st_value = None \<and>
   alarmState_of empty_event = ''UNKNOWN'' \<and>
   handler (example_env ''true'' ''https://example.test/hook'' ''s3cr3t'')
     (stub_runtime 200 incidentId) empty_event
     = \<lparr>result = Inr (), built = [], sent = []\<rparr> \<and>
   handler_001 (example_env ''true'' [] []) (stub_runtime 500 incidentId_001) empty_event
     = \<lparr>result = Inr (), built = [], sent = []\<rparr>"
proof -
  note e = empty_event_state
  from e
    missing_state_is_unknown [OF e,
      of "example_env ''true'' ''https://example.test/hook'' ''s3cr3t''"
         "stub_runtime 200 incidentId" "stub_runtime 500 incidentId_001"]
    missing_state_is_unknown [OF e, of "example_env ''true'' [] []"
         "stub_runtime 200 incidentId" "stub_runtime 500 incidentId_001"]
  show ?thesis by simp
qed

end
